theory Spec2Isabelle
  imports Complex_Main
begin

section \<open>GENIEHelper: fiducial cuts, spill accounting and sampling\<close>

text \<open>
  A shallow embedding of \<^verbatim>\<open>EventGeneratorBase/GENIE/GENIEHelper.cxx\<close>.
  The helper object and the collaborators it mutates (the geometry analyzer it owns, the
  active top volume of the ROOT geometry manager) are one record that every member function
  takes and returns. A \<^verbatim>\<open>double\<close> is a \<open>real\<close>: rounding, infinities and NaN are not
  represented. A quotient whose divisor is zero is an infinity or NaN in the program and
  has no counterpart here, so a statement that depends on the value of a quotient assumes
  that the divisor is not zero. What an outside library reports during a call (the event
  generator, the flux driver, the random generator, the file system) is an argument of the
  modelled function.
  \<^verbatim>\<open>exit(1)\<close>, a failed \<^verbatim>\<open>assert\<close> (asserts are compiled in), a thrown exception and
  an allocation that cannot succeed are values of type \<open>error\<close>.
\<close>

subsection \<open>Strings\<close>

text \<open>\<^verbatim>\<open>std::string::npos\<close> is \<open>None\<close>.\<close>

fun find_first_not_of :: "string \<Rightarrow> string \<Rightarrow> nat option" where
  "find_first_not_of [] ds = None"
| "find_first_not_of (c # cs) ds =
     (if c \<in> set ds then map_option Suc (find_first_not_of cs ds) else Some 0)"

text \<open>\<^verbatim>\<open>s.erase(0, n)\<close>; with \<^verbatim>\<open>npos\<close> everything goes.\<close>

definition erase0 :: "string \<Rightarrow> nat option \<Rightarrow> string" where
  "erase0 s n = (case n of None \<Rightarrow> [] | Some k \<Rightarrow> drop k s)"

text \<open>
  The idiom used for every configuration string:
  \<^verbatim>\<open>if (s.find_first_not_of(" \t\n") != 0) s.erase(0, s.find_first_not_of(" \t\n"));\<close>
  Only leading blanks, tabs and newlines are removed.
\<close>

definition blanks :: string where
  "blanks = [CHR '' '', CHR 0x09, CHR 0x0A]"

definition trim_leading :: "string \<Rightarrow> string" where
  "trim_leading s =
     (if find_first_not_of s blanks \<noteq> Some 0 then erase0 s (find_first_not_of s blanks) else s)"

text \<open>\<^verbatim>\<open>::tolower\<close> in the C locale.\<close>

definition tolower :: "char \<Rightarrow> char" where
  "tolower c =
     (case map_of (zip ''ABCDEFGHIJKLMNOPQRSTUVWXYZ'' ''abcdefghijklmnopqrstuvwxyz'') c of
        Some d \<Rightarrow> d
      | None \<Rightarrow> c)"

text \<open>\<^verbatim>\<open>s.find(sub) != std::string::npos\<close>.\<close>

fun contains :: "string \<Rightarrow> string \<Rightarrow> bool" where
  "contains [] sub = (sub = [])"
| "contains (c # cs) sub = (take (length sub) (c # cs) = sub \<or> contains cs sub)"

text \<open>
  Modelled from the spec: \<^verbatim>\<open>genie::utils::str::Split(input, delimiters)\<close> belongs to the
  GENIE library and is not in this repository. A cut is a type word, a \<^verbatim>\<open>":"\<close> and a
  list of values delimited by commas, blanks and brackets: the input is cut at every
  character of \<open>delimiters\<close>; the piece after the last cut is always returned, so the
  result is never empty and adjacent delimiters give empty pieces.
\<close>

fun Split :: "string \<Rightarrow> string \<Rightarrow> string list" where
  "Split [] ds = [[]]"
| "Split (c # cs) ds =
     (if c \<in> set ds then [] # Split cs ds
      else (case Split cs ds of
              [] \<Rightarrow> [[c]]
            | p # ps \<Rightarrow> (c # p) # ps))"

text \<open>
  \<^verbatim>\<open>atof\<close> of the C library on decimal input: blanks, a sign, digits, a fraction, an
  exponent; the longest such prefix is read and a text with no digits gives 0.
  Hexadecimal input and the words \<^verbatim>\<open>inf\<close> and \<^verbatim>\<open>nan\<close> are not modelled.
\<close>

definition isspace :: "char \<Rightarrow> bool" where
  "isspace c = (c \<in> set [CHR '' '', CHR 0x09, CHR 0x0A, CHR 0x0B, CHR 0x0C, CHR 0x0D])"

definition isdigit :: "char \<Rightarrow> bool" where
  "isdigit c = (c \<in> set ''0123456789'')"

definition digit_val :: "char \<Rightarrow> nat" where
  "digit_val c =
     (case map_of (zip ''0123456789'' [0, 1, 2, 3, 4, 5, 6, 7, 8, 9]) c of
        Some d \<Rightarrow> d
      | None \<Rightarrow> 0)"

fun digits_val :: "nat \<Rightarrow> string \<Rightarrow> nat" where
  "digits_val acc [] = acc"
| "digits_val acc (c # cs) = digits_val (10 * acc + digit_val c) cs"

definition skip_sign :: "string \<Rightarrow> string" where
  "skip_sign s =
     (case s of
        [] \<Rightarrow> []
      | c # cs \<Rightarrow> if c = CHR ''-'' \<or> c = CHR ''+'' then cs else s)"

definition is_negative :: "string \<Rightarrow> bool" where
  "is_negative s = (case s of [] \<Rightarrow> False | c # cs \<Rightarrow> c = CHR ''-'')"

definition exponent :: "string \<Rightarrow> int" where
  "exponent s =
     (case s of
        [] \<Rightarrow> 0
      | c # cs \<Rightarrow>
          if c = CHR ''e'' \<or> c = CHR ''E'' then
            (let ds = takeWhile isdigit (skip_sign cs)
             in if is_negative cs then - int (digits_val 0 ds) else int (digits_val 0 ds))
          else 0)"

definition atof :: "string \<Rightarrow> real" where
  "atof s =
     (let s1 = dropWhile isspace s;
          s2 = skip_sign s1;
          ip = takeWhile isdigit s2;
          r1 = dropWhile isdigit s2;
          fp = (case r1 of [] \<Rightarrow> [] | c # cs \<Rightarrow> if c = CHR ''.'' then takeWhile isdigit cs else []);
          r2 = (case r1 of [] \<Rightarrow> [] | c # cs \<Rightarrow> if c = CHR ''.'' then dropWhile isdigit cs else r1);
          mant = real (digits_val 0 (ip @ fp)) / 10 ^ length fp;
          ex = exponent r2;
          v = (if 0 \<le> ex then mant * 10 ^ nat ex else mant / 10 ^ nat (- ex))
      in if ip = [] \<and> fp = [] then 0
         else if is_negative s1 then - v
         else v)"

text \<open>
  The value list of a cut: \<^verbatim>\<open>Split\<close> on the separators, empty pieces dropped, each
  remaining piece read by \<^verbatim>\<open>atof\<close>.
\<close>

definition parse_values :: "string \<Rightarrow> real list" where
  "parse_values s = map atof (filter (\<lambda>valstr1. valstr1 \<noteq> []) (Split s '' ,;(){}[]''))"

subsection \<open>Data model\<close>

type_synonym vec3 = "real \<times> real \<times> real"

text \<open>
  The shape held by a GENIE volume selector, as the \<^verbatim>\<open>Make...\<close> call that created it:
  \<^verbatim>\<open>MakeZCylinder(x0,y0,radius,zmin,zmax)\<close>, \<^verbatim>\<open>MakeBox(xyzmin,xyzmax)\<close>,
  \<^verbatim>\<open>MakeZPolygon(nfaces,x0,y0,r_in,phi,zmin,zmax)\<close>, \<^verbatim>\<open>MakeSphere(x0,y0,z0,radius)\<close>.
\<close>

datatype shape =
    ZCylinder real real real real real
  | Box vec3 vec3
  | ZPolygon int real real real real real real
  | Sphere real real real real

text \<open>
  \<^verbatim>\<open>genie::geometry::GeomVolSelectorFiducial\<close> and its subclass
  \<^verbatim>\<open>GeomVolSelectorRockBox\<close>, by what this code sets on them. A freshly created selector
  has no shape and no flag set; \<open>None\<close> in a rock-box field is the library's default.
\<close>

record GeomVolSelectorFiducial =
  fidShape :: "shape option"
  removeEntries :: bool
  master2top :: bool
  reverseFiducial :: bool

record GeomVolSelectorRockBox =
  rockShape :: "shape option"
  rockRemoveEntries :: bool
  rockBoxMinimal :: "(vec3 \<times> vec3) option"
  minimumWall :: "real option"
  deDx :: "real option"

definition new_GeomVolSelectorFiducial :: GeomVolSelectorFiducial where
  "new_GeomVolSelectorFiducial =
     \<lparr>fidShape = None, removeEntries = False, master2top = False, reverseFiducial = False\<rparr>"

definition new_GeomVolSelectorRockBox :: GeomVolSelectorRockBox where
  "new_GeomVolSelectorRockBox =
     \<lparr>rockShape = None, rockRemoveEntries = False, rockBoxMinimal = None,
      minimumWall = None, deDx = None\<rparr>"

datatype selector =
    Fiducial GeomVolSelectorFiducial
  | RockBox GeomVolSelectorRockBox

text \<open>\<^verbatim>\<open>genie::geometry::ROOTGeomAnalyzer\<close>: its top volume name and the selector it adopted.\<close>

record ROOTGeomAnalyzer =
  topVolName :: string
  volSelector :: "selector option"

text \<open>
  Calls on collaborators, in the order made. A log message is kept with its severity and
  its fixed text; streamed numbers are left out. The messages of the fiducial selection and
  of \<^verbatim>\<open>Stop\<close> are recorded; the informational messages of the constructor and of
  \<^verbatim>\<open>Initialize\<close> are not.
\<close>

datatype level = LogDebug | LogInfo | LogWarning | LogError

datatype event =
    Log level string
  | SetTopVolume string
  | GenerateEvent
  | SetTopVolName string
  | AdoptGeomVolSelector selector

datatype error =
  Exit1 | AssertFailed | BadAlloc | NullPointer | InvalidIterator | UnresolvedGSPLOAD

text \<open>A flux histogram (\<^verbatim>\<open>TH1D\<close>), by the value of its \<^verbatim>\<open>Integral()\<close>.\<close>

datatype TH1D = TH1D (Integral: real)

text \<open>
  The members of \<^verbatim>\<open>GENIEHelper\<close> that the modelled functions read or write.
  \<open>fGeomD\<close> is \<open>None\<close> for the null pointer; the only object ever stored there is a
  \<^verbatim>\<open>ROOTGeomAnalyzer\<close>, so the dynamic cast succeeds exactly when it is not null.
  \<open>geoTopVolume\<close> is the name of the current top volume of the geometry service's
  \<^verbatim>\<open>ROOTGeoManager()\<close>; \<open>trace\<close> collects the events.
\<close>

record helper =
  fGeomD :: "ROOTGeomAnalyzer option"
  fFluxType :: string
  fTopVolume :: string
  fWorldVolume :: string
  fEventsPerSpill :: real
  fPOTPerSpill :: real
  fHistEventsPerSpill :: real
  fSpillEvents :: int
  fSpillExposure :: real
  fTotalExposure :: real
  fSurroundingMass :: real
  fAtmoRt :: real
  fFiducialCut :: string
  fGenFlavors :: "int set"
  fFluxFiles :: "string set"
  fFluxHistograms :: "TH1D list"
  fTotalHistFlux :: real
  fXSecMassPOT :: real
  fDetLength :: real
  fDetectorMass :: real
  geoTopVolume :: string
  trace :: "event list"

definition emit :: "event \<Rightarrow> helper \<Rightarrow> helper" where
  "emit e h = h\<lparr>trace := trace h @ [e]\<rparr>"

subsection \<open>Fiducial selection\<close>

text \<open>
  \<^verbatim>\<open>for (size_t nadd = 0; nadd < n-nvals; ++nadd) vals.push_back(0);\<close>
  The bound is unsigned: with more than \<open>n\<close> values it wraps to nearly \<open>2^64\<close> and the
  vector cannot grow that far.
\<close>

definition pad_to :: "nat \<Rightarrow> real list \<Rightarrow> error + real list" where
  "pad_to n vals =
     (if length vals \<le> n then Inr (vals @ replicate (n - length vals) 0) else Inl BadAlloc)"

text \<open>
  \<^verbatim>\<open>(int)x\<close> on a \<^verbatim>\<open>double\<close>: the fraction is dropped. A value that does not fit
  the 32-bit \<^verbatim>\<open>int\<close> comes out of the conversion instruction as \<^verbatim>\<open>INT_MIN\<close>.
\<close>

definition to_int :: "real \<Rightarrow> int" where
  "to_int x =
     (let t = (if 0 \<le> x then \<lfloor>x\<rfloor> else \<lceil>x\<rceil>)
      in if - (2 ^ 31) \<le> t \<and> t < 2 ^ 31 then t else - (2 ^ 31))"

text \<open>The warning block for a cut with no single \<^verbatim>\<open>":"\<close>: one message, then one per piece.\<close>

definition warn_no_colon :: "string \<Rightarrow> string list \<Rightarrow> helper \<Rightarrow> helper" where
  "warn_no_colon what strtok h =
     foldl (\<lambda>h' tok. emit (Log LogWarning (''strtok = '' @ tok)) h')
       (emit (Log LogWarning (''Can not create '' @ what @ '', no : separating type from values'')) h)
       strtok"

text \<open>\<^verbatim>\<open>GENIEHelper::InitializeRockBoxSelection\<close>.\<close>

definition InitializeRockBoxSelection :: "helper \<Rightarrow> error + helper" where
  "InitializeRockBoxSelection h =
     (let fidcut = map tolower (trim_leading (fFiducialCut h))
      in case fGeomD h of
           None \<Rightarrow>
             Inr (emit (Log LogWarning
               ''Can not create GeomVolSelectorRockBox, geometry driver is not ROOTGeomAnalyzer'') h)
         | Some rgeom \<Rightarrow>
             (let h1 = emit (Log LogInfo (''fiducial (rock) cut: '' @ fidcut)) h;
                  rocksel = new_GeomVolSelectorRockBox;
                  strtok = Split fidcut '':''
              in if length strtok \<noteq> 2 then Inr (warn_no_colon ''GeomVolSelectorRockBox'' strtok h1)
                 else
                   (let vals = parse_values (strtok ! 1);
                        nvals = length vals;
                        rocksel1 = rocksel\<lparr>rockRemoveEntries := True\<rparr>;
                        h2 = h1\<lparr>fTopVolume := fWorldVolume h1\<rparr>;
                        rgeom1 = rgeom\<lparr>topVolName := fTopVolume h2\<rparr>;
                        h3 = emit (SetTopVolName (fTopVolume h2)) (h2\<lparr>fGeomD := Some rgeom1\<rparr>)
                    in if nvals < 6 then Inl AssertFailed
                       else
                         (let xyzmin = (vals ! 0, vals ! 1, vals ! 2);
                              xyzmax = (vals ! 3, vals ! 4, vals ! 5);
                              rockonly = (if 7 \<le> nvals then vals ! 6 \<noteq> 0 else True);
                              wallmin = (if 8 \<le> nvals then vals ! 7 else 800);
                              dedx = (if 9 \<le> nvals then vals ! 8 else 2.5 * 0.0017);
                              fudge = (if 10 \<le> nvals then vals ! 9 else 1.05);
                              rocksel2 = rocksel1\<lparr>rockBoxMinimal := Some (xyzmin, xyzmax),
                                                  minimumWall := Some wallmin,
                                                  deDx := Some (dedx / fudge)\<rparr>;
                              rocksel3 = (if \<not> rockonly
                                          then rocksel2\<lparr>rockShape := Some (Sphere 0 0 0 (1 / 10 ^ 10))\<rparr>
                                          else rocksel2\<lparr>rockShape := Some (Box xyzmin xyzmax)\<rparr>);
                              rgeom2 = rgeom1\<lparr>volSelector := Some (RockBox rocksel3)\<rparr>
                          in Inr (emit (AdoptGeomVolSelector (RockBox rocksel3))
                                   (h3\<lparr>fGeomD := Some rgeom2\<rparr>))))))"

text \<open>
  The shape chosen by the type word of a cut, with the message logged when there are too
  few values; the \<^verbatim>\<open>Make...\<close> call is made all the same, on the padded values.
  The keywords are probed in the order \<^verbatim>\<open>zcyl\<close>, \<^verbatim>\<open>box\<close>, \<^verbatim>\<open>zpoly\<close>, \<^verbatim>\<open>sphere\<close>.
\<close>

definition make_shape :: "string \<Rightarrow> nat \<Rightarrow> real list \<Rightarrow> shape option \<times> event list" where
  "make_shape stype nvals vals =
     (if contains stype ''zcyl'' then
        (Some (ZCylinder (vals ! 0) (vals ! 1) (vals ! 2) (vals ! 3) (vals ! 4)),
         if nvals < 5 then [Log LogError ''MakeZCylinder needs 5 values''] else [])
      else if contains stype ''box'' then
        (let xyzmin = (vals ! 0, vals ! 1, vals ! 2);
             xyzmax = (vals ! 4, vals ! 5, vals ! 5)
         in (Some (Box xyzmin xyzmax),
             if nvals < 6 then [Log LogError ''MakeBox needs 6 values''] else []))
      else if contains stype ''zpoly'' then
        (let nfaces = to_int (vals ! 0)
         in (Some (ZPolygon nfaces (vals ! 1) (vals ! 2) (vals ! 3) (vals ! 4) (vals ! 5) (vals ! 6)),
             (if nvals < 7 then [Log LogError ''MakeZPolygon needs 7 values''] else []) @
             (if nfaces < 3 then [Log LogError ''MakeZPolygon needs nfaces>=3''] else [])))
      else if contains stype ''sphere'' then
        (Some (Sphere (vals ! 0) (vals ! 1) (vals ! 2) (vals ! 3)),
         if nvals < 4 then [Log LogError ''MakeZSphere needs 4 values''] else [])
      else
        (None, [Log LogError ''Can not create GeomVolSelectorFiduction for shape'']))"

text \<open>\<^verbatim>\<open>GENIEHelper::InitializeFiducialSelection\<close>.\<close>

definition InitializeFiducialSelection :: "helper \<Rightarrow> error + helper" where
  "InitializeFiducialSelection h =
     (let fidcut = map tolower (trim_leading (fFiducialCut h))
      in if fidcut = [] \<or> fidcut = ''none'' then Inr h
         else if contains fidcut ''rock'' then InitializeRockBoxSelection h
         else case fGeomD h of
           None \<Rightarrow>
             Inr (emit (Log LogWarning
               ''Can not create GeomVolSelectorFiduction, geometry driver is not ROOTGeomAnalyzer'') h)
         | Some rgeom \<Rightarrow>
             (let h1 = emit (Log LogInfo (''fiducial cut: '' @ fidcut)) h;
                  fidsel = new_GeomVolSelectorFiducial\<lparr>removeEntries := True\<rparr>;
                  strtok = Split fidcut '':''
              in if length strtok \<noteq> 2 then Inr (warn_no_colon ''GeomVolSelectorFiduction'' strtok h1)
                 else
                   (let stype = strtok ! 0;
                        reverse = contains stype ''0'';
                        master = contains stype ''m'';
                        vals0 = parse_values (strtok ! 1);
                        nvals = length vals0
                    in case pad_to 7 vals0 of
                         Inl e \<Rightarrow> Inl e
                       | Inr vals \<Rightarrow>
                           (let made = make_shape stype nvals vals;
                                h2 = h1\<lparr>trace := trace h1 @ snd made\<rparr>;
                                fidsel1 = fidsel\<lparr>fidShape := fst made\<rparr>;
                                fidsel2 = (if master then fidsel1\<lparr>master2top := True\<rparr> else fidsel1);
                                h3 = (if master
                                      then emit (Log LogInfo
                                        ''Convert fiducial volume from master to topvol coords'') h2
                                      else h2);
                                fidsel3 = (if reverse then fidsel2\<lparr>reverseFiducial := True\<rparr>
                                           else fidsel2);
                                h4 = (if reverse
                                      then emit (Log LogInfo ''Reverse sense of fiducial volume cut'') h3
                                      else h3);
                                rgeom1 = rgeom\<lparr>volSelector := Some (Fiducial fidsel3)\<rparr>
                            in Inr (emit (AdoptGeomVolSelector (Fiducial fidsel3))
                                     (h4\<lparr>fGeomD := Some rgeom1\<rparr>))))))"

subsection \<open>Construction\<close>

text \<open>The configuration parameters read by the constructor.\<close>

record ParameterSet =
  FluxType :: string
  TopVolume :: string
  EventsPerSpill :: real
  POTPerSpill :: real
  SurroundingMass :: real
  Rt :: real
  FiducialCut :: string
  FluxFiles :: "string list"
  GenFlavors :: "int list"

text \<open>
  What the constructor finds outside the configuration.
  \<^item> \<open>find_file name fileName\<close> is the content of \<^verbatim>\<open>fileName\<close> after
    \<^verbatim>\<open>sp.find_file(name, fileName)\<close> on \<^verbatim>\<open>FW_SEARCH_PATH\<close>, given its content before.
  \<^item> \<open>scan_dirs pattern\<close> is what the directory scan of \<^verbatim>\<open>FindFluxPath\<close> ends with:
    \<^verbatim>\<open>pathmax\<close> and \<^verbatim>\<open>nftot\<close>.
  \<^item> \<open>GSPLOAD_resolved\<close> is false when the environment block (seed, \<^verbatim>\<open>GXMLPATH\<close>,
    \<^verbatim>\<open>GSPLOAD\<close>) throws \<^verbatim>\<open>UnresolvedGSPLOAD\<close>; the block changes no modelled member.
  \<^item> \<open>TFile_Get name\<close> is the histogram of that name in the first flux file, \<open>None\<close>
    when \<^verbatim>\<open>dynamic_cast<TH1D *>(tf.Get(name))\<close> is null.
  \<^item> \<open>manager_TopVolume\<close> is the top volume of the geometry manager at that time.
  \<^item> The \<open>storage_\<close> fields are the bytes found in the members that the initialiser list
    does not mention: \<^verbatim>\<open>fTotalHistFlux\<close>, \<^verbatim>\<open>fXSecMassPOT\<close>, \<^verbatim>\<open>fDetLength\<close>,
    \<^verbatim>\<open>fDetectorMass\<close>.
\<close>

record site =
  find_file :: "string \<Rightarrow> string \<Rightarrow> string"
  scan_dirs :: "string \<Rightarrow> string \<times> nat"
  GSPLOAD_resolved :: bool
  TFile_Get :: "string \<Rightarrow> TH1D option"
  manager_TopVolume :: string
  storage_fTotalHistFlux :: real
  storage_fXSecMassPOT :: real
  storage_fDetLength :: real
  storage_fDetectorMass :: real

text \<open>The initialiser list.\<close>

definition init_list :: "site \<Rightarrow> ParameterSet \<Rightarrow> helper" where
  "init_list st pset =
     \<lparr>fGeomD = None,
      fFluxType = FluxType pset,
      fTopVolume = TopVolume pset,
      fWorldVolume = ''volWorld'',
      fEventsPerSpill = EventsPerSpill pset,
      fPOTPerSpill = POTPerSpill pset,
      fHistEventsPerSpill = 0,
      fSpillEvents = 0,
      fSpillExposure = 0,
      fTotalExposure = 0,
      fSurroundingMass = SurroundingMass pset,
      fAtmoRt = Rt pset,
      fFiducialCut = FiducialCut pset,
      fGenFlavors = {},
      fFluxFiles = {},
      fFluxHistograms = [],
      fTotalHistFlux = storage_fTotalHistFlux st,
      fXSecMassPOT = storage_fXSecMassPOT st,
      fDetLength = storage_fDetLength st,
      fDetectorMass = storage_fDetectorMass st,
      geoTopVolume = manager_TopVolume st,
      trace = []\<rparr>"

text \<open>
  \<^verbatim>\<open>GENIEHelper::FindFluxPath\<close>, after its directory scan: the assertion for the ntuple
  types, then the insertion of \<^verbatim>\<open>pathmax\<close>.
\<close>

definition FindFluxPath :: "site \<Rightarrow> string \<Rightarrow> helper \<Rightarrow> error + helper" where
  "FindFluxPath st userpattern h =
     (let pathmax = fst (scan_dirs st userpattern);
          nftot = snd (scan_dirs st userpattern)
      in if (fFluxType h = ''ntuple'' \<or> fFluxType h = ''simple_flux'') \<and>
            (pathmax = [] \<or> nftot = 0)
         then Inl AssertFailed
         else Inr (h\<lparr>fFluxFiles := insert pathmax (fFluxFiles h)\<rparr>))"

text \<open>
  The loop over \<^verbatim>\<open>fluxFiles\<close>; \<^verbatim>\<open>fileName\<close> is declared before the loop and keeps
  its content from one pass to the next.
\<close>

fun find_files :: "site \<Rightarrow> string list \<Rightarrow> string \<Rightarrow> helper \<Rightarrow> helper" where
  "find_files st [] fileName h = h"
| "find_files st (f # fs) fileName h =
     (let fileName1 = find_file st f fileName
      in if fileName1 \<noteq> [] then
           find_files st fs fileName1 (h\<lparr>fFluxFiles := insert fileName1 (fFluxFiles h)\<rparr>)
         else if take 1 f = ''/'' then
           find_files st fs fileName1 (h\<lparr>fFluxFiles := insert f (fFluxFiles h)\<rparr>)
         else find_files st fs fileName1 h)"

definition find_flux_files :: "site \<Rightarrow> string list \<Rightarrow> helper \<Rightarrow> error + helper" where
  "find_flux_files st fluxFiles h =
     (if length fluxFiles = 1 \<and> list_ex (\<lambda>c. c \<in> set ''*?'') (fluxFiles ! 0)
      then FindFluxPath st (fluxFiles ! 0) h
      else Inr (find_files st fluxFiles [] h))"

text \<open>The block \<^verbatim>\<open>//For Atmo flux\<close>.\<close>

definition atmo_checks :: "int list \<Rightarrow> helper \<Rightarrow> error + helper" where
  "atmo_checks genFlavors h =
     (if contains (fFluxType h) ''atmo'' then
        (if length genFlavors \<noteq> card (fFluxFiles h) then Inl Exit1
         else if fEventsPerSpill h \<noteq> 1 then Inl Exit1
         else if fFluxType h = ''atmo_FLUKA'' then Inr h
         else if fFluxType h = ''atmo_BARTOL'' then Inr h
         else Inl Exit1)
      else Inr h)"

text \<open>The histograms pushed for one flavor, in the order of the six tests.\<close>

definition flavor_histograms :: "site \<Rightarrow> int \<Rightarrow> TH1D option list" where
  "flavor_histograms st flv =
     (if flv = 12 then [TFile_Get st ''nue''] else []) @
     (if flv = - 12 then [TFile_Get st ''nuebar''] else []) @
     (if flv = 14 then [TFile_Get st ''numu''] else []) @
     (if flv = - 14 then [TFile_Get st ''numubar''] else []) @
     (if flv = 16 then [TFile_Get st ''nutau''] else []) @
     (if flv = - 16 then [TFile_Get st ''nutaubar''] else [])"

text \<open>
  The block \<^verbatim>\<open>// make the histograms\<close>. The file opened is \<^verbatim>\<open>*fFluxFiles.begin()\<close>,
  which is the end iterator when no flux file was found. \<^verbatim>\<open>std::set<int>\<close> is walked in
  ascending order. The second loop dereferences every pointer pushed by the first.
\<close>

definition make_histograms :: "site \<Rightarrow> helper \<Rightarrow> error + helper" where
  "make_histograms st h =
     (if fFluxType h = ''histogram'' then
        (let pushed = concat (map (flavor_histograms st) (sorted_list_of_set (fGenFlavors h)))
         in if fFluxFiles h = {} then Inl InvalidIterator
            else if None \<in> set pushed then Inl NullPointer
            else
              (let hists = map the pushed
               in Inr (h\<lparr>fFluxHistograms := hists,
                         fTotalHistFlux := foldl (\<lambda>t hist. t + Integral hist) (fTotalHistFlux h) hists\<rparr>)))
      else Inr h)"

text \<open>\<^verbatim>\<open>GENIEHelper::GENIEHelper(fhicl::ParameterSet const& pset)\<close>.\<close>

definition GENIEHelper :: "site \<Rightarrow> ParameterSet \<Rightarrow> error + helper" where
  "GENIEHelper st pset =
     (let h0 = init_list st pset;
          genFlavors = GenFlavors pset;
          h1 = h0\<lparr>fGenFlavors := set genFlavors\<rparr>
      in case find_flux_files st (FluxFiles pset) h1 of
           Inl e \<Rightarrow> Inl e
         | Inr h2 \<Rightarrow>
             if \<not> GSPLOAD_resolved st then Inl UnresolvedGSPLOAD
             else case atmo_checks genFlavors h2 of
               Inl e \<Rightarrow> Inl e
             | Inr h3 \<Rightarrow>
                 (case make_histograms st h3 of
                    Inl e \<Rightarrow> Inl e
                  | Inr h4 \<Rightarrow>
                      Inr (if fFluxType h4 = ''mono'' then h4\<lparr>fEventsPerSpill := 1\<rparr> else h4)))"

text \<open>\<^verbatim>\<open>GENIEHelper::TotalHistFlux\<close>.\<close>

definition TotalHistFlux :: "helper \<Rightarrow> real" where
  "TotalHistFlux h =
     (if fFluxType h = ''ntuple'' \<or> fFluxType h = ''mono'' \<or> fFluxType h = ''simple_flux''
      then - 999
      else fTotalHistFlux h)"

subsection \<open>Initialization\<close>

text \<open>What the geometry service answers: \<^verbatim>\<open>DetLength()\<close> and \<^verbatim>\<open>TotalMass(volume)\<close>.\<close>

record geometry =
  DetLength :: real
  TotalMass :: "string \<Rightarrow> real"

text \<open>\<^verbatim>\<open>GENIEHelper::InitializeGeometry\<close>.\<close>

definition InitializeGeometry :: "geometry \<Rightarrow> helper \<Rightarrow> error + helper" where
  "InitializeGeometry geo h =
     (let h1 = h\<lparr>fWorldVolume := geoTopVolume h\<rparr>;
          rgeom = \<lparr>topVolName = fTopVolume h1, volSelector = None\<rparr>;
          h2 = emit (SetTopVolName (fTopVolume h1)) (h1\<lparr>fGeomD := Some rgeom\<rparr>)
      in case InitializeFiducialSelection h2 of
           Inl e \<Rightarrow> Inl e
         | Inr h3 \<Rightarrow>
             Inr (h3\<lparr>fDetLength := DetLength geo,
                     fDetectorMass := TotalMass geo (fTopVolume h3)\<rparr>))"

text \<open>
  \<^verbatim>\<open>GENIEHelper::Initialize\<close>. \<open>Poisson mean\<close> is what \<^verbatim>\<open>gRandom->Poisson(mean)\<close>
  draws in this call. The assembly of the flux driver, the geometry scan configuration and
  the configuration of the \<^verbatim>\<open>GMCJDriver\<close> act on GENIE objects only and write none of the
  members read below; they are left out, so a state returned here stands for every run of
  the source that reached the end of \<^verbatim>\<open>Initialize\<close>.
\<close>

definition Initialize :: "geometry \<Rightarrow> (real \<Rightarrow> nat) \<Rightarrow> helper \<Rightarrow> error + helper" where
  "Initialize geo Poisson h =
     (case InitializeGeometry geo h of
        Inl e \<Rightarrow> Inl e
      | Inr h1 \<Rightarrow>
          (let h2 = (if fFluxType h1 = ''histogram'' \<and> fEventsPerSpill h1 < 0.01 then
                       (let x = (1 / 10 ^ 38) * (1 / 10 ^ 20) *
                                (fPOTPerSpill h1 * (fDetectorMass h1 + fSurroundingMass h1) /
                                 (1.67262158 / 10 ^ 27))
                        in h1\<lparr>fXSecMassPOT := x,
                              fHistEventsPerSpill := real (Poisson (x * fTotalHistFlux h1))\<rparr>)
                     else h1)
           in Inr (h2\<lparr>fSpillEvents := 0, fSpillExposure := 0, fTotalExposure := 0\<rparr>)))"

subsection \<open>Spill accounting and sampling\<close>

text \<open>
  What the collaborators report during one call of \<^verbatim>\<open>Sample\<close> or \<^verbatim>\<open>Stop\<close>:
  whether \<^verbatim>\<open>fDriver->GenerateEvent()\<close> returned a record, the flux driver's
  \<^verbatim>\<open>UsedPOTs()\<close>, the driver's \<^verbatim>\<open>GlobProbScale()\<close>, the atmospheric driver's
  \<^verbatim>\<open>NFluxNeutrinos()\<close>, and the draw of \<^verbatim>\<open>gRandom->Poisson(mean)\<close>.
\<close>

record readings =
  generated :: bool
  UsedPOTs :: real
  GlobProbScale :: real
  NFluxNeutrinos :: int
  Poisson :: "real \<Rightarrow> nat"

definition is_atmo :: "helper \<Rightarrow> bool" where
  "is_atmo h = (fFluxType h = ''atmo_FLUKA'' \<or> fFluxType h = ''atmo_BARTOL'')"

definition is_ntuple :: "helper \<Rightarrow> bool" where
  "is_ntuple h = (fFluxType h = ''ntuple'' \<or> fFluxType h = ''simple_flux'')"

text \<open>
  The first half of \<^verbatim>\<open>GENIEHelper::Stop\<close>: \<open>None\<close> is \<^verbatim>\<open>return false\<close>, otherwise
  the state that goes on to the reset.
\<close>

definition keep_throwing :: "helper \<Rightarrow> helper option" where
  "keep_throwing h =
     (if is_atmo h then
        (if 0 < fEventsPerSpill h \<and> real_of_int (fSpillEvents h) < fEventsPerSpill h then None
         else Some h)
      else if 0 < fEventsPerSpill h then
        (if real_of_int (fSpillEvents h) < fEventsPerSpill h then None else Some h)
      else
        (if is_ntuple h \<and> fSpillExposure h < fPOTPerSpill h then None
         else if fFluxType h = ''histogram'' then
           (if real_of_int (fSpillEvents h) < fHistEventsPerSpill h then None
            else Some (h\<lparr>fSpillExposure := fPOTPerSpill h\<rparr>))
         else Some h))"

text \<open>\<^verbatim>\<open>GENIEHelper::Stop\<close>.\<close>

definition Stop :: "readings \<Rightarrow> helper \<Rightarrow> bool \<times> helper" where
  "Stop r h =
     (case keep_throwing h of
        None \<Rightarrow> (False, h)
      | Some h1 \<Rightarrow>
          (let h2 = (if is_atmo h1 then
                       emit (Log LogDebug ''===> Atmo EXPOSURE'')
                         (h1\<lparr>fTotalExposure :=
                               (10 ^ 4 * real_of_int (NFluxNeutrinos r)) /
                               (pi * fAtmoRt h1 * fAtmoRt h1)\<rparr>)
                     else h1\<lparr>fTotalExposure := fTotalExposure h1 + fSpillExposure h1\<rparr>)
           in (True,
               h2\<lparr>fSpillEvents := 0,
                  fSpillExposure := 0,
                  fHistEventsPerSpill := real (Poisson r (fXSecMassPOT h2 * fTotalHistFlux h2))\<rparr>)))"

text \<open>
  \<^verbatim>\<open>GENIEHelper::Sample\<close>. The translation of the event into the truth and flux records
  (\<^verbatim>\<open>PackMCTruth\<close>, \<^verbatim>\<open>PackGTruth\<close>, \<^verbatim>\<open>PackNuMIFlux\<close>, \<^verbatim>\<open>PackSimpleFlux\<close>, the flux
  fields and the debug printout) writes no member of the helper and is left out. The build
  has \<^verbatim>\<open>GSimpleNtpFlux\<close>.
\<close>

definition Sample :: "readings \<Rightarrow> helper \<Rightarrow> bool \<times> helper" where
  "Sample r h =
     (let h1 = emit GenerateEvent
                 (emit (SetTopVolume (fTopVolume h)) (h\<lparr>geoTopVolume := fTopVolume h\<rparr>));
          viableInteraction = generated r;
          h2 = (if fFluxType h1 = ''ntuple'' then
                  h1\<lparr>fSpillExposure := UsedPOTs r / GlobProbScale r - fTotalExposure h1\<rparr>
                else if fFluxType h1 = ''simple_flux'' then
                  h1\<lparr>fSpillExposure := UsedPOTs r / GlobProbScale r - fTotalExposure h1\<rparr>
                else h1)
      in if \<not> viableInteraction then (False, h2)
         else
           (let h3 = (if 0 < fEventsPerSpill h2 \<and>
                         (fFluxType h2 = ''ntuple'' \<or> fFluxType h2 = ''simple_flux'')
                      then h2\<lparr>fSpillEvents := fSpillEvents h2 + 1\<rparr>
                      else h2);
                h4 = (if fFluxType h3 = ''histogram'' then h3\<lparr>fSpillEvents := fSpillEvents h3 + 1\<rparr>
                      else if fFluxType h3 = ''mono'' then h3\<lparr>fSpillEvents := fSpillEvents h3 + 1\<rparr>
                      else if fFluxType h3 = ''atmo_FLUKA'' \<or> fFluxType h3 = ''atmo_BARTOL'' then
                        (if 0 < fEventsPerSpill h3 then h3\<lparr>fSpillEvents := fSpillEvents h3 + 1\<rparr>
                         else h3)
                      else h3)
            in (True,
                emit (SetTopVolume (fWorldVolume h4)) (h4\<lparr>geoTopVolume := fWorldVolume h4\<rparr>))))"





text \<open>Construction followed by \<^verbatim>\<open>Initialize\<close>, as every caller does.\<close>

definition startup ::
  "site \<Rightarrow> geometry \<Rightarrow> (real \<Rightarrow> nat) \<Rightarrow> ParameterSet \<Rightarrow> error + helper" where
  "startup st geo P pset =
     (case GENIEHelper st pset of
        Inl e \<Rightarrow> Inl e
      | Inr h \<Rightarrow> Initialize geo P h)"

text \<open>\<^verbatim>\<open>Stop\<close> called again and again with no \<^verbatim>\<open>Sample\<close> in between.\<close>

fun Stops :: "readings list \<Rightarrow> helper \<Rightarrow> bool list \<times> helper" where
  "Stops [] h = ([], h)"
| "Stops (r # rs) h =
     (fst (Stop r h) # fst (Stops rs (snd (Stop r h))), snd (Stops rs (snd (Stop r h))))"


subsection \<open>Example configurations\<close>

text \<open>
  A site where the search path finds nothing, the first flux file holds one histogram
  \<^verbatim>\<open>numu\<close> of integral 2, and the world volume is \<^verbatim>\<open>volWorld\<close>.
\<close>

definition no_file :: "string \<Rightarrow> string \<Rightarrow> string" where
  "no_file name fileName = fileName"

definition no_dirs :: "string \<Rightarrow> string \<times> nat" where
  "no_dirs pattern = ([], 0)"

definition numu_only :: "string \<Rightarrow> TH1D option" where
  "numu_only name = (if name = ''numu'' then Some (TH1D 2) else None)"

definition plain_site :: site where
  "plain_site =
     \<lparr>find_file = no_file,
      scan_dirs = no_dirs,
      GSPLOAD_resolved = True,
      TFile_Get = numu_only,
      manager_TopVolume = ''volWorld'',
      storage_fTotalHistFlux = 0,
      storage_fXSecMassPOT = 0,
      storage_fDetLength = 0,
      storage_fDetectorMass = 0\<rparr>"

text \<open>The same site, with a stale 1 in the storage of \<^verbatim>\<open>fTotalHistFlux\<close>.\<close>

definition stale_site :: site where
  "stale_site = plain_site\<lparr>storage_fTotalHistFlux := 1\<rparr>"

definition ton :: "string \<Rightarrow> real" where
  "ton volume = 1000"

definition hall :: geometry where
  "hall = \<lparr>DetLength = 10, TotalMass = ton\<rparr>"

definition no_events :: "real \<Rightarrow> nat" where
  "no_events mean = 0"

definition mono_pset :: ParameterSet where
  "mono_pset =
     \<lparr>FluxType = ''mono'', TopVolume = ''volDetEnclosure'', EventsPerSpill = 0,
      POTPerSpill = 5 * 10 ^ 13, SurroundingMass = 0, Rt = 20, FiducialCut = ''none'',
      FluxFiles = [], GenFlavors = [14]\<rparr>"

definition ntuple_pset :: ParameterSet where
  "ntuple_pset = mono_pset\<lparr>FluxType := ''ntuple'', FluxFiles := [''/flux/numi.root'']\<rparr>"

definition hist_pset :: ParameterSet where
  "hist_pset = mono_pset\<lparr>FluxType := ''histogram'', FluxFiles := [''/flux/hist.root'']\<rparr>"

text \<open>A histogram configuration with a negative exposure per spill.\<close>

definition owing_pset :: ParameterSet where
  "owing_pset = hist_pset\<lparr>POTPerSpill := - 1\<rparr>"

text \<open>An ntuple configuration that closes its spills by event count, and one with a negative
  exposure per spill.\<close>

definition counting_pset :: ParameterSet where
  "counting_pset = ntuple_pset\<lparr>EventsPerSpill := 1\<rparr>"

definition lending_pset :: ParameterSet where
  "lending_pset = ntuple_pset\<lparr>POTPerSpill := - 1\<rparr>"

text \<open>An atmospheric configuration: one flavor, one flux file, one event per spill.\<close>

definition fluka_pset :: ParameterSet where
  "fluka_pset =
     mono_pset\<lparr>FluxType := ''atmo_FLUKA'', EventsPerSpill := 1,
               FluxFiles := [''/flux/fluka.root'']\<rparr>"

text \<open>Two flavors, one flux file.\<close>

definition atmo_pset :: ParameterSet where
  "atmo_pset =
     mono_pset\<lparr>FluxType := ''atmo_FLUKA'', EventsPerSpill := 1, GenFlavors := [14, - 14],
               FluxFiles := [''/flux/fluka.root'']\<rparr>"

text \<open>The helper as \<open>startup\<close> leaves it for \<open>mono_pset\<close>.\<close>

definition mono_ready :: helper where
  "mono_ready =
     \<lparr>fGeomD = Some \<lparr>topVolName = ''volDetEnclosure'', volSelector = None\<rparr>,
      fFluxType = ''mono'',
      fTopVolume = ''volDetEnclosure'',
      fWorldVolume = ''volWorld'',
      fEventsPerSpill = 1,
      fPOTPerSpill = 5 * 10 ^ 13,
      fHistEventsPerSpill = 0,
      fSpillEvents = 0,
      fSpillExposure = 0,
      fTotalExposure = 0,
      fSurroundingMass = 0,
      fAtmoRt = 20,
      fFiducialCut = ''none'',
      fGenFlavors = {14},
      fFluxFiles = {},
      fFluxHistograms = [],
      fTotalHistFlux = 0,
      fXSecMassPOT = 0,
      fDetLength = 10,
      fDetectorMass = 1000,
      geoTopVolume = ''volWorld'',
      trace = [SetTopVolName ''volDetEnclosure'']\<rparr>"

text \<open>The helper as \<open>startup\<close> leaves it for \<open>ntuple_pset\<close>, \<open>hist_pset\<close> and \<open>owing_pset\<close>.\<close>

definition ntuple_ready :: helper where
  "ntuple_ready =
     mono_ready\<lparr>fFluxType := ''ntuple'', fEventsPerSpill := 0,
                fFluxFiles := {''/flux/numi.root''}\<rparr>"

definition hist_ready :: helper where
  "hist_ready =
     mono_ready\<lparr>fFluxType := ''histogram'', fEventsPerSpill := 0,
                fFluxFiles := {''/flux/hist.root''}, fFluxHistograms := [TH1D 2],
                fTotalHistFlux := 2,
                fXSecMassPOT := (1 / 10 ^ 38) * (1 / 10 ^ 20) *
                                (5 * 10 ^ 13 * (1000 + 0) / (1.67262158 / 10 ^ 27))\<rparr>"

definition owing_ready :: helper where
  "owing_ready =
     hist_ready\<lparr>fPOTPerSpill := - 1,
                fXSecMassPOT := (1 / 10 ^ 38) * (1 / 10 ^ 20) *
                                (- 1 * (1000 + 0) / (1.67262158 / 10 ^ 27))\<rparr>"

text \<open>The helper as \<open>startup\<close> leaves it for \<open>counting_pset\<close>, \<open>lending_pset\<close>, \<open>fluka_pset\<close>.\<close>

definition counting_ready :: helper where
  "counting_ready = ntuple_ready\<lparr>fEventsPerSpill := 1\<rparr>"

definition lending_ready :: helper where
  "lending_ready = ntuple_ready\<lparr>fPOTPerSpill := - 1\<rparr>"

definition fluka_ready :: helper where
  "fluka_ready = mono_ready\<lparr>fFluxType := ''atmo_FLUKA'', fFluxFiles := {''/flux/fluka.root''}\<rparr>"

text \<open>
  The helper at the moment \<^verbatim>\<open>InitializeGeometry\<close> calls
  \<^verbatim>\<open>InitializeFiducialSelection\<close>, for \<open>mono_pset\<close> with the cut replaced.
\<close>

definition with_cut :: "string \<Rightarrow> helper" where
  "with_cut spec = mono_ready\<lparr>fFiducialCut := spec, fDetLength := 0, fDetectorMass := 0\<rparr>"

text \<open>Readings of a call where the generator found no event, and of calls where it did.\<close>

definition miss :: readings where
  "miss =
     \<lparr>generated = False, UsedPOTs = 100, GlobProbScale = 2, NFluxNeutrinos = 0,
      Poisson = no_events\<rparr>"

definition hit :: readings where
  "hit = miss\<lparr>generated := True\<rparr>"

definition later_hit :: readings where
  "later_hit = hit\<lparr>UsedPOTs := 2 * 10 ^ 14\<rparr>"

text \<open>A reading of the used exposure below the one of \<open>hit\<close>.\<close>

definition slip :: readings where
  "slip = hit\<lparr>UsedPOTs := 98\<rparr>"

text \<open>Readings with one and with two flux neutrinos thrown.\<close>

definition one_thrown :: readings where
  "one_thrown = hit\<lparr>NFluxNeutrinos := 1\<rparr>"

definition two_thrown :: readings where
  "two_thrown = hit\<lparr>NFluxNeutrinos := 2\<rparr>"

text \<open>The mono helper after its first event.\<close>

definition mono_sampled :: helper where
  "mono_sampled = snd (Sample hit mono_ready)"

subsection \<open>Unfolding\<close>

lemmas string_defs = trim_leading_def blanks_def erase0_def tolower_def parse_values_def atof_def
  isspace_def isdigit_def digit_val_def skip_sign_def is_negative_def exponent_def

lemmas cut_defs = InitializeFiducialSelection_def InitializeRockBoxSelection_def make_shape_def
  pad_to_def to_int_def warn_no_colon_def emit_def new_GeomVolSelectorFiducial_def
  new_GeomVolSelectorRockBox_def

lemmas ctor_defs = GENIEHelper_def init_list_def find_flux_files_def FindFluxPath_def
  atmo_checks_def make_histograms_def flavor_histograms_def

lemmas init_defs = startup_def Initialize_def InitializeGeometry_def

lemmas spill_defs = Stop_def Sample_def keep_throwing_def is_atmo_def is_ntuple_def

lemmas example_defs = plain_site_def stale_site_def no_file_def no_dirs_def numu_only_def
  hall_def ton_def no_events_def mono_pset_def ntuple_pset_def hist_pset_def owing_pset_def
  atmo_pset_def mono_ready_def ntuple_ready_def hist_ready_def owing_ready_def with_cut_def
  miss_def hit_def later_hit_def mono_sampled_def counting_pset_def lending_pset_def
  fluka_pset_def counting_ready_def lending_ready_def fluka_ready_def slip_def
  one_thrown_def two_thrown_def

text \<open>The example helpers are the ones the code reaches.\<close>

lemma startup_mono: "startup plain_site hall no_events mono_pset = Inr mono_ready"
  by (simp add: example_defs ctor_defs init_defs cut_defs string_defs)

lemma startup_ntuple: "startup plain_site hall no_events ntuple_pset = Inr ntuple_ready"
  by (simp add: example_defs ctor_defs init_defs cut_defs string_defs)

lemma startup_hist: "startup plain_site hall no_events hist_pset = Inr hist_ready"
  by (simp add: example_defs ctor_defs init_defs cut_defs string_defs
      sorted_list_of_set_sort_remdups)





section \<open>Properties\<close>

subsection \<open>Fiducial cuts\<close>

text \<open>
  C1. A box cut with six values should install the box with minimum corner
  \<open>(v0,v1,v2)\<close> and maximum corner \<open>(v3,v4,v5)\<close>. The code builds the maximum
  corner from \<^verbatim>\<open>vals[4], vals[5], vals[5]\<close>: for \<^verbatim>\<open>box:0,0,0,1,2,3\<close> the selector
  adopted by the geometry holds the box \<open>(0,0,0)-(2,3,3)\<close>, not \<open>(0,0,0)-(1,2,3)\<close>,
  and for any six values the fourth is never used.
\<close>

theorem box_cut_takes_wrong_maximum:
  "InitializeFiducialSelection (with_cut ''box:0,0,0,1,2,3'') =
     Inr ((with_cut ''box:0,0,0,1,2,3'')
       \<lparr>fGeomD := Some \<lparr>topVolName = ''volDetEnclosure'',
           volSelector = Some (Fiducial
             \<lparr>fidShape = Some (Box (0, 0, 0) (2, 3, 3)), removeEntries = True,
              master2top = False, reverseFiducial = False\<rparr>)\<rparr>,
        trace := [SetTopVolName ''volDetEnclosure'',
                  Log LogInfo ''fiducial cut: box:0,0,0,1,2,3'',
                  AdoptGeomVolSelector (Fiducial
                    \<lparr>fidShape = Some (Box (0, 0, 0) (2, 3, 3)), removeEntries = True,
                     master2top = False, reverseFiducial = False\<rparr>)]\<rparr>)
   \<and> Box (0, 0, 0) (2, 3, 3) \<noteq> Box (0, 0, 0) (1, 2, 3)
   \<and> make_shape ''box'' 6 [v0, v1, v2, v3, v4, v5, 0] =
       (Some (Box (v0, v1, v2) (v4, v5, v5)), [])"
  by (simp add: example_defs cut_defs string_defs Let_def)

text \<open>
  C8. For the cut \<^verbatim>\<open>rock:0,0,0,10,10,10\<close> and a helper that has its geometry analyzer,
  the helper's top volume becomes the world volume, the analyzer is told so, and then the
  analyzer adopts a rock-box selector: minimal box and box shape \<open>(0,0,0)-(10,10,10)\<close>
  (rock only), minimum wall 800, energy loss \<open>0.00425 / 1.05\<close>. The order is the order
  of the trace.
\<close>

theorem rock_cut_defaults:
  assumes "fFiducialCut h = ''rock:0,0,0,10,10,10''" and "fGeomD h = Some g"
  shows "InitializeFiducialSelection h =
     Inr (h\<lparr>fGeomD := Some \<lparr>topVolName = fWorldVolume h,
                volSelector = Some (RockBox
                  \<lparr>rockShape = Some (Box (0, 0, 0) (10, 10, 10)), rockRemoveEntries = True,
                   rockBoxMinimal = Some ((0, 0, 0), (10, 10, 10)),
                   minimumWall = Some 800, deDx = Some (0.00425 / 1.05)\<rparr>)\<rparr>,
             fTopVolume := fWorldVolume h,
             trace := trace h @
               [Log LogInfo ''fiducial (rock) cut: rock:0,0,0,10,10,10'',
                SetTopVolName (fWorldVolume h),
                AdoptGeomVolSelector (RockBox
                  \<lparr>rockShape = Some (Box (0, 0, 0) (10, 10, 10)), rockRemoveEntries = True,
                   rockBoxMinimal = Some ((0, 0, 0), (10, 10, 10)),
                   minimumWall = Some 800, deDx = Some (0.00425 / 1.05)\<rparr>)]\<rparr>)"
  using assms by (simp add: cut_defs string_defs Let_def)

theorem rock_cut_defaults_witness:
  "fFiducialCut (with_cut ''rock:0,0,0,10,10,10'') = ''rock:0,0,0,10,10,10''
   \<and> fGeomD (with_cut ''rock:0,0,0,10,10,10'') =
       Some \<lparr>topVolName = ''volDetEnclosure'', volSelector = None\<rparr>
   \<and> map_sum id fTopVolume (InitializeFiducialSelection (with_cut ''rock:0,0,0,10,10,10'')) =
       Inr ''volWorld''
   \<and> map_sum id trace (InitializeFiducialSelection (with_cut ''rock:0,0,0,10,10,10'')) =
       Inr [SetTopVolName ''volDetEnclosure'',
            Log LogInfo ''fiducial (rock) cut: rock:0,0,0,10,10,10'',
            SetTopVolName ''volWorld'',
            AdoptGeomVolSelector (RockBox
              \<lparr>rockShape = Some (Box (0, 0, 0) (10, 10, 10)), rockRemoveEntries = True,
               rockBoxMinimal = Some ((0, 0, 0), (10, 10, 10)),
               minimumWall = Some 800, deDx = Some (0.00425 / 1.05)\<rparr>)]"
proof -
  have c: "fFiducialCut (with_cut ''rock:0,0,0,10,10,10'') = ''rock:0,0,0,10,10,10''"
    by (simp add: example_defs)
  have g: "fGeomD (with_cut ''rock:0,0,0,10,10,10'') =
       Some \<lparr>topVolName = ''volDetEnclosure'', volSelector = None\<rparr>"
    by (simp add: example_defs)
  show ?thesis
    using c g rock_cut_defaults [OF c g] by (simp add: example_defs)
qed

text \<open>
  C9, as amended. For the cuts \<^verbatim>\<open>""\<close>, \<^verbatim>\<open>"none"\<close> and \<^verbatim>\<open>" NONE"\<close> (any case, leading
  blanks removed) the fiducial selection returns at once: nothing is installed, nothing is
  logged, the helper is unchanged.
\<close>

theorem none_cut_is_noop:
  assumes "fFiducialCut h \<in> {'''', ''none'', '' NONE''}"
  shows "InitializeFiducialSelection h = Inr h"
  using assms by (auto simp: InitializeFiducialSelection_def string_defs Let_def)

theorem none_cut_is_noop_witness:
  "fFiducialCut (with_cut '' NONE'') \<in> {'''', ''none'', '' NONE''}
   \<and> InitializeFiducialSelection (with_cut '' NONE'') = Inr (with_cut '' NONE'')"
proof -
  have c: "fFiducialCut (with_cut '' NONE'') \<in> {'''', ''none'', '' NONE''}"
    by (simp add: example_defs)
  show ?thesis
    using c none_cut_is_noop [OF c] by simp
qed

text \<open>
  C9 as stated fails for \<^verbatim>\<open>" NONE "\<close>: only leading blanks are removed, the text
  \<^verbatim>\<open>"none "\<close> is not \<^verbatim>\<open>"none"\<close>, and the cut is taken for a malformed shape cut. No
  selector is installed, but the missing \<^verbatim>\<open>":"\<close> is reported in two warnings.
\<close>

theorem trailing_blank_none_counterexample:
  "InitializeFiducialSelection (with_cut '' NONE '') =
     Inr ((with_cut '' NONE '')
       \<lparr>trace := [SetTopVolName ''volDetEnclosure'',
                  Log LogInfo ''fiducial cut: none '',
                  Log LogWarning
                    ''Can not create GeomVolSelectorFiduction, no : separating type from values'',
                  Log LogWarning ''strtok = none '']\<rparr>)
   \<and> InitializeFiducialSelection (with_cut '' NONE '') \<noteq> Inr (with_cut '' NONE '')"
  by (simp add: example_defs cut_defs string_defs Let_def)

subsection \<open>Construction\<close>

lemma find_files_config:
  "fFluxType (find_files st fs n h) = fFluxType h \<and>
   fEventsPerSpill (find_files st fs n h) = fEventsPerSpill h \<and>
   fTotalHistFlux (find_files st fs n h) = fTotalHistFlux h"
  by (induction fs arbitrary: n h) (simp_all add: Let_def)

lemma find_flux_files_config:
  assumes "find_flux_files st fs h = Inr h2"
  shows "fFluxType h2 = fFluxType h \<and> fEventsPerSpill h2 = fEventsPerSpill h \<and>
         fTotalHistFlux h2 = fTotalHistFlux h"
  using assms find_files_config [of st fs "[]" h]
  by (auto simp: find_flux_files_def FindFluxPath_def Let_def split: if_splits)

lemma find_flux_files_returns:
  assumes "fFluxType h \<noteq> ''ntuple''" and "fFluxType h \<noteq> ''simple_flux''"
  shows "\<exists>h2. find_flux_files st fs h = Inr h2"
  using assms by (simp add: find_flux_files_def FindFluxPath_def Let_def)

text \<open>
  C6. For the flux types \<^verbatim>\<open>atmo_FLUKA\<close> and \<^verbatim>\<open>atmo_BARTOL\<close>, when the number of
  configured flavors differs from the number of flux files found, or the events per spill
  are not exactly 1, the constructor does not return a helper: it ends in \<^verbatim>\<open>exit(1)\<close>
  (or earlier, in the exception of the environment block). For these flux types the search
  for the flux files itself never fails.
\<close>

theorem atmo_mismatch_is_fatal:
  assumes "FluxType pset = ''atmo_FLUKA'' \<or> FluxType pset = ''atmo_BARTOL''"
    and "find_flux_files st (FluxFiles pset)
           ((init_list st pset)\<lparr>fGenFlavors := set (GenFlavors pset)\<rparr>) = Inr h2"
    and "length (GenFlavors pset) \<noteq> card (fFluxFiles h2) \<or> EventsPerSpill pset \<noteq> 1"
  shows "GENIEHelper st pset = Inl (if GSPLOAD_resolved st then Exit1 else UnresolvedGSPLOAD)"
proof -
  from find_flux_files_config [OF assms(2)]
  have t: "fFluxType h2 = FluxType pset" and e: "fEventsPerSpill h2 = EventsPerSpill pset"
    by (simp_all add: init_list_def)
  from assms(1) t have a: "contains (fFluxType h2) ''atmo''"
    by auto
  from a assms(3) t e have "atmo_checks (GenFlavors pset) h2 = Inl Exit1"
    by (auto simp: atmo_checks_def)
  with assms(2) show ?thesis
    by (simp add: GENIEHelper_def Let_def)
qed

theorem atmo_mismatch_is_fatal_witness:
  "(FluxType atmo_pset = ''atmo_FLUKA'' \<or> FluxType atmo_pset = ''atmo_BARTOL'')
   \<and> find_flux_files plain_site (FluxFiles atmo_pset)
        ((init_list plain_site atmo_pset)\<lparr>fGenFlavors := set (GenFlavors atmo_pset)\<rparr>) =
      Inr ((init_list plain_site atmo_pset)
             \<lparr>fGenFlavors := {14, - 14}, fFluxFiles := {''/flux/fluka.root''}\<rparr>)
   \<and> length (GenFlavors atmo_pset) = 2
   \<and> card {''/flux/fluka.root''} = 1
   \<and> GENIEHelper plain_site atmo_pset = Inl Exit1"
proof -
  have t: "FluxType atmo_pset = ''atmo_FLUKA'' \<or> FluxType atmo_pset = ''atmo_BARTOL''"
    by (simp add: example_defs)
  have f: "find_flux_files plain_site (FluxFiles atmo_pset)
        ((init_list plain_site atmo_pset)\<lparr>fGenFlavors := set (GenFlavors atmo_pset)\<rparr>) =
      Inr ((init_list plain_site atmo_pset)
             \<lparr>fGenFlavors := {14, - 14}, fFluxFiles := {''/flux/fluka.root''}\<rparr>)"
    by (simp add: example_defs find_flux_files_def init_list_def Let_def)
  have n: "length (GenFlavors atmo_pset) \<noteq>
      card (fFluxFiles ((init_list plain_site atmo_pset)
             \<lparr>fGenFlavors := {14, - 14}, fFluxFiles := {''/flux/fluka.root''}\<rparr>))
      \<or> EventsPerSpill atmo_pset \<noteq> 1"
    by (simp add: example_defs)
  have g: "GSPLOAD_resolved plain_site" by (simp add: example_defs)
  show ?thesis
    using t f atmo_mismatch_is_fatal [OF t f n] g by (simp add: example_defs)
qed

text \<open>
  What the accessor returns in general: the sentinel for the three flux types, and for a
  histogram flux the content of the storage plus the sum of the integrals.
\<close>

lemma TotalHistFlux_sentinel:
  assumes "fFluxType h = ''ntuple'' \<or> fFluxType h = ''mono'' \<or> fFluxType h = ''simple_flux''"
  shows "TotalHistFlux h = - 999"
  using assms by (auto simp: TotalHistFlux_def)

lemma foldl_Integral:
  "foldl (\<lambda>t hist. t + Integral hist) a hs = a + sum_list (map Integral hs)"
  by (induction hs arbitrary: a) simp_all

lemma TotalHistFlux_histogram:
  assumes "FluxType pset = ''histogram''" and "GENIEHelper st pset = Inr h"
  shows "TotalHistFlux h = storage_fTotalHistFlux st + sum_list (map Integral (fFluxHistograms h))"
proof -
  from assms(2) obtain h2 where
    f: "find_flux_files st (FluxFiles pset)
          ((init_list st pset)\<lparr>fGenFlavors := set (GenFlavors pset)\<rparr>) = Inr h2"
    by (auto simp: GENIEHelper_def Let_def split: sum.splits)
  from find_flux_files_config [OF f] assms(1)
  have t: "fFluxType h2 = ''histogram''" "fTotalHistFlux h2 = storage_fTotalHistFlux st"
    by (simp_all add: init_list_def)
  from assms(2) f t show ?thesis
    by (auto simp: GENIEHelper_def Let_def atmo_checks_def make_histograms_def
        TotalHistFlux_def foldl_Integral split: sum.splits if_splits)
qed

text \<open>
  C10. \<^verbatim>\<open>TotalHistFlux()\<close> should return the sum of the integrals of the loaded
  histograms for a histogram flux. The constructor adds the integrals to a member that its
  initialiser list never sets, so the result is that sum plus whatever the storage held:
  with one histogram of integral 2 and a stale 1 in the storage, the accessor returns 3.
\<close>

theorem TotalHistFlux_adds_to_stale_storage:
  "GENIEHelper stale_site hist_pset =
     Inr ((init_list stale_site hist_pset)
       \<lparr>fGenFlavors := {14}, fFluxFiles := {''/flux/hist.root''},
        fFluxHistograms := [TH1D 2], fTotalHistFlux := 3\<rparr>)
   \<and> map_sum id TotalHistFlux (GENIEHelper stale_site hist_pset) = Inr 3
   \<and> sum_list (map Integral [TH1D 2]) = 2"
  by (simp add: example_defs ctor_defs TotalHistFlux_def sorted_list_of_set_sort_remdups Let_def)

subsection \<open>Initialization keeps the configuration\<close>

lemma warn_no_colon_config:
  "fFluxType (warn_no_colon w toks h) = fFluxType h \<and>
   fEventsPerSpill (warn_no_colon w toks h) = fEventsPerSpill h"
proof -
  have "fFluxType (foldl (\<lambda>h' tok. emit (Log LogWarning (''strtok = '' @ tok)) h') k toks) = fFluxType k \<and>
        fEventsPerSpill (foldl (\<lambda>h' tok. emit (Log LogWarning (''strtok = '' @ tok)) h') k toks) = fEventsPerSpill k" for k
    by (induction toks arbitrary: k) (simp_all add: emit_def)
  then show ?thesis by (simp add: warn_no_colon_def emit_def)
qed

lemma InitializeRockBoxSelection_config:
  assumes "InitializeRockBoxSelection h = Inr h'"
  shows "fFluxType h' = fFluxType h \<and> fEventsPerSpill h' = fEventsPerSpill h"
  using assms warn_no_colon_config
  by (auto simp: InitializeRockBoxSelection_def emit_def Let_def
      split: option.splits if_splits)

lemma InitializeFiducialSelection_config:
  assumes "InitializeFiducialSelection h = Inr h'"
  shows "fFluxType h' = fFluxType h \<and> fEventsPerSpill h' = fEventsPerSpill h"
  using assms warn_no_colon_config InitializeRockBoxSelection_config [of h h']
  by (auto simp: InitializeFiducialSelection_def emit_def Let_def
      split: option.splits if_splits sum.splits)

lemma Initialize_config:
  assumes "Initialize geo P h0 = Inr h"
  shows "fFluxType h = fFluxType h0 \<and> fEventsPerSpill h = fEventsPerSpill h0 \<and>
         fSpillEvents h = 0 \<and> fSpillExposure h = 0 \<and> fTotalExposure h = 0"
proof -
  from assms obtain h1 where g: "InitializeGeometry geo h0 = Inr h1"
    by (auto simp: Initialize_def split: sum.splits)
  then obtain h3 where
    f: "InitializeFiducialSelection
          (emit (SetTopVolName (fTopVolume h0))
            (h0\<lparr>fWorldVolume := geoTopVolume h0,
                fGeomD := Some \<lparr>topVolName = fTopVolume h0, volSelector = None\<rparr>\<rparr>)) = Inr h3"
    and h1: "h1 = h3\<lparr>fDetLength := DetLength geo, fDetectorMass := TotalMass geo (fTopVolume h3)\<rparr>"
    by (auto simp: InitializeGeometry_def Let_def split: sum.splits)
  from InitializeFiducialSelection_config [OF f] h1
  have c: "fFluxType h1 = fFluxType h0 \<and> fEventsPerSpill h1 = fEventsPerSpill h0"
    by (simp add: emit_def)
  from assms g c show ?thesis
    by (auto simp: Initialize_def Let_def split: if_splits)
qed

lemma GENIEHelper_mono:
  assumes "FluxType pset = ''mono''" and "GENIEHelper st pset = Inr h0"
  shows "fFluxType h0 = ''mono'' \<and> fEventsPerSpill h0 = 1"
proof -
  from assms(2) obtain h2 where
    f: "find_flux_files st (FluxFiles pset)
          ((init_list st pset)\<lparr>fGenFlavors := set (GenFlavors pset)\<rparr>) = Inr h2"
    by (auto simp: GENIEHelper_def Let_def split: sum.splits)
  from find_flux_files_config [OF f] assms(1)
  have t: "fFluxType h2 = ''mono''" by (simp add: init_list_def)
  from assms(2) f t show ?thesis
    by (auto simp: GENIEHelper_def Let_def atmo_checks_def make_histograms_def
        split: sum.splits if_splits)
qed

subsection \<open>Sampling\<close>

text \<open>
  C4. For the flux types \<^verbatim>\<open>ntuple\<close> and \<^verbatim>\<open>simple_flux\<close>, \<^verbatim>\<open>Sample\<close> returns false
  exactly when the generator produced no event record, and on that path as on the other the
  spill exposure has been set to the used exposure over the probability scale, minus the
  total exposure already booked. The scale is taken not to be zero, so that the quotient is
  a number.
\<close>

theorem Sample_books_exposure_on_every_path:
  assumes "fFluxType h = ''ntuple'' \<or> fFluxType h = ''simple_flux''"
    and "GlobProbScale r \<noteq> 0"
  shows "fst (Sample r h) = generated r
       \<and> fSpillExposure (snd (Sample r h)) = UsedPOTs r / GlobProbScale r - fTotalExposure h"
  using assms by (auto simp: Sample_def emit_def Let_def)

theorem Sample_books_exposure_on_every_path_witness:
  "(fFluxType ntuple_ready = ''ntuple'' \<or> fFluxType ntuple_ready = ''simple_flux'')
   \<and> GlobProbScale miss = 2
   \<and> generated miss = False
   \<and> fst (Sample miss ntuple_ready) = False
   \<and> fSpillExposure (snd (Sample miss ntuple_ready)) = 50"
proof -
  have t: "fFluxType ntuple_ready = ''ntuple'' \<or> fFluxType ntuple_ready = ''simple_flux''"
    by (simp add: example_defs)
  have g: "GlobProbScale miss \<noteq> 0"
    by (simp add: example_defs)
  show ?thesis
    using t Sample_books_exposure_on_every_path [OF t g]
    by (simp add: example_defs)
qed

text \<open>
  Where \<^verbatim>\<open>Sample\<close> leaves the geometry manager, in general.
\<close>

lemma Sample_miss_top_volume:
  assumes "\<not> generated r"
  shows "geoTopVolume (snd (Sample r h)) = fTopVolume h \<and>
         trace (snd (Sample r h)) = trace h @ [SetTopVolume (fTopVolume h), GenerateEvent]"
  using assms by (simp add: Sample_def emit_def Let_def)

lemma Sample_hit_top_volume:
  assumes "generated r"
  shows "geoTopVolume (snd (Sample r h)) = fWorldVolume h \<and>
         trace (snd (Sample r h)) =
           trace h @ [SetTopVolume (fTopVolume h), GenerateEvent, SetTopVolume (fWorldVolume h)]"
  using assms by (simp add: Sample_def emit_def Let_def)

text \<open>
  C5. Every call of \<^verbatim>\<open>Sample\<close> should leave the geometry manager on the world
  volume. When the generator produces no event, \<^verbatim>\<open>Sample\<close> returns before the call that
  restores the world volume: the manager stays on the detector volume. With an event the
  world volume is restored.
\<close>

theorem Sample_miss_keeps_detector_volume:
  "startup plain_site hall no_events mono_pset = Inr mono_ready
   \<and> fWorldVolume mono_ready = ''volWorld''
   \<and> Sample miss mono_ready =
       (False, mono_ready\<lparr>geoTopVolume := ''volDetEnclosure'',
                           trace := [SetTopVolName ''volDetEnclosure'',
                                     SetTopVolume ''volDetEnclosure'', GenerateEvent]\<rparr>)
   \<and> Sample hit mono_ready =
       (True, mono_ready\<lparr>fSpillEvents := 1, geoTopVolume := ''volWorld'',
                          trace := [SetTopVolName ''volDetEnclosure'',
                                    SetTopVolume ''volDetEnclosure'', GenerateEvent,
                                    SetTopVolume ''volWorld'']\<rparr>)"
  using startup_mono by (simp add: example_defs spill_defs emit_def Let_def)

text \<open>
  C7. For a \<^verbatim>\<open>mono\<close> configuration the constructor sets the events per spill to 1;
  after \<^verbatim>\<open>Initialize\<close> the first \<^verbatim>\<open>Sample\<close> that produces an event returns true and
  leaves one event in the spill, and the \<^verbatim>\<open>Stop\<close> that follows returns true.
\<close>

theorem mono_spill_closes_after_one_event:
  assumes "FluxType pset = ''mono''"
    and "GENIEHelper st pset = Inr h0"
    and "Initialize geo P h0 = Inr h"
    and "generated r"
  shows "fEventsPerSpill h0 = 1
       \<and> fst (Sample r h)
       \<and> fSpillEvents (snd (Sample r h)) = 1
       \<and> fst (Stop r' (snd (Sample r h)))"
proof -
  from GENIEHelper_mono [OF assms(1,2)] Initialize_config [OF assms(3)]
  have c: "fFluxType h = ''mono''" "fEventsPerSpill h = 1" "fSpillEvents h = 0"
    and e: "fEventsPerSpill h0 = 1"
    by simp_all
  from c assms(4) have s: "fst (Sample r h)" "fSpillEvents (snd (Sample r h)) = 1"
    "fFluxType (snd (Sample r h)) = ''mono''" "fEventsPerSpill (snd (Sample r h)) = 1"
    by (simp_all add: Sample_def emit_def Let_def)
  from s have "fst (Stop r' (snd (Sample r h)))"
    by (simp add: Stop_def keep_throwing_def is_atmo_def Let_def)
  with e s show ?thesis by simp
qed

theorem mono_spill_closes_after_one_event_witness:
  "FluxType mono_pset = ''mono''
   \<and> GENIEHelper plain_site mono_pset =
       Inr ((init_list plain_site mono_pset)\<lparr>fGenFlavors := {14}, fEventsPerSpill := 1\<rparr>)
   \<and> Initialize hall no_events
        ((init_list plain_site mono_pset)\<lparr>fGenFlavors := {14}, fEventsPerSpill := 1\<rparr>) =
       Inr mono_ready
   \<and> generated hit
   \<and> fst (Sample hit mono_ready)
   \<and> fSpillEvents (snd (Sample hit mono_ready)) = 1
   \<and> fst (Stop miss (snd (Sample hit mono_ready)))"
proof -
  have t: "FluxType mono_pset = ''mono''" by (simp add: example_defs)
  have c: "GENIEHelper plain_site mono_pset =
       Inr ((init_list plain_site mono_pset)\<lparr>fGenFlavors := {14}, fEventsPerSpill := 1\<rparr>)"
    by (simp add: example_defs ctor_defs Let_def)
  have i: "Initialize hall no_events
        ((init_list plain_site mono_pset)\<lparr>fGenFlavors := {14}, fEventsPerSpill := 1\<rparr>) =
       Inr mono_ready"
    by (simp add: example_defs init_list_def init_defs cut_defs string_defs Let_def)
  have g: "generated hit" by (simp add: example_defs)
  show ?thesis
    using t c i g mono_spill_closes_after_one_event [OF t c i g, of miss] by simp
qed

subsection \<open>Closing a spill\<close>

lemma Stop_false_iff: "(\<not> fst (Stop r h)) = (keep_throwing h = None)"
  by (simp add: Stop_def Let_def split: option.splits)

lemma Stop_false_state: "keep_throwing h = None \<Longrightarrow> Stop r h = (False, h)"
  by (simp add: Stop_def)

lemma keep_throwing_Some:
  assumes "keep_throwing h = Some h1"
  shows "h1 = h \<or>
         (fFluxType h = ''histogram'' \<and> fEventsPerSpill h \<le> 0 \<and> \<not> is_atmo h \<and>
          h1 = h\<lparr>fSpillExposure := fPOTPerSpill h\<rparr>)"
  using assms by (auto simp: keep_throwing_def split: if_splits)

lemma Stops_open:
  assumes "keep_throwing h = None"
  shows "Stops rs h = (replicate (length rs) False, h)"
  by (induction rs) (simp_all add: Stop_false_state [OF assms])

lemma Stop_closes:
  assumes "keep_throwing h = Some h1"
  shows "Stop r h =
     (True,
      (if is_atmo h1
       then emit (Log LogDebug ''===> Atmo EXPOSURE'')
              (h1\<lparr>fTotalExposure :=
                    (10 ^ 4 * real_of_int (NFluxNeutrinos r)) / (pi * fAtmoRt h1 * fAtmoRt h1)\<rparr>)
       else h1\<lparr>fTotalExposure := fTotalExposure h1 + fSpillExposure h1\<rparr>)
        \<lparr>fSpillEvents := 0, fSpillExposure := 0,
         fHistEventsPerSpill := real (Poisson r (fXSecMassPOT h1 * fTotalHistFlux h1))\<rparr>)"
  using assms by (simp add: Stop_def emit_def Let_def)

text \<open>
  C2, as amended. While \<^verbatim>\<open>Stop\<close> returns false it changes nothing: repeated calls with no
  \<^verbatim>\<open>Sample\<close> in between all return false and leave the helper as it was. A \<^verbatim>\<open>Stop\<close>
  that returns true closes the spill: the spill events and the spill exposure are reset to
  zero, the events of the next histogram spill are redrawn, the atmospheric message is
  logged, and nothing else changes but the total exposure. The total becomes the normalised
  neutrino count for the atmospheric types (with \<open>Rt\<close> not zero); otherwise the exposure
  per spill (for a histogram flux with no event target) or the spill exposure is added to it.
\<close>

theorem Stop_repeats_or_closes:
  "(\<not> fst (Stop r h) \<longrightarrow> Stops (r # rs) h = (replicate (Suc (length rs)) False, h))
   \<and> (fst (Stop r h) \<longrightarrow>
        (snd (Stop r h))\<lparr>fTotalExposure := 0\<rparr> =
          h\<lparr>fTotalExposure := 0, fSpillEvents := 0, fSpillExposure := 0,
            fHistEventsPerSpill := real (Poisson r (fXSecMassPOT h * fTotalHistFlux h)),
            trace := trace h @ (if is_atmo h then [Log LogDebug ''===> Atmo EXPOSURE''] else [])\<rparr>
        \<and> (is_atmo h \<and> fAtmoRt h \<noteq> 0 \<longrightarrow>
             fTotalExposure (snd (Stop r h)) =
               (10 ^ 4 * real_of_int (NFluxNeutrinos r)) / (pi * fAtmoRt h * fAtmoRt h))
        \<and> (\<not> is_atmo h \<longrightarrow>
             fTotalExposure (snd (Stop r h)) =
               fTotalExposure h +
               (if fFluxType h = ''histogram'' \<and> \<not> 0 < fEventsPerSpill h
                then fPOTPerSpill h else fSpillExposure h)))"
proof (cases "keep_throwing h")
  case None
  from Stops_open [OF None, of "r # rs"] None show ?thesis
    by (simp add: Stop_false_state)
next
  case (Some h1)
  from keep_throwing_Some [OF Some]
  consider "h1 = h" "\<not> (fFluxType h = ''histogram'' \<and> \<not> 0 < fEventsPerSpill h \<and> \<not> is_atmo h)"
    | "fFluxType h = ''histogram''" "\<not> 0 < fEventsPerSpill h" "\<not> is_atmo h"
      "h1 = h\<lparr>fSpillExposure := fPOTPerSpill h\<rparr>"
    using Some by (auto simp: keep_throwing_def split: if_splits)
  then show ?thesis
  proof cases
    case 1
    with Stop_closes [OF Some, of r] show ?thesis
      by (auto simp: emit_def is_atmo_def)
  next
    case 2
    with Stop_closes [OF Some, of r] show ?thesis
      by (auto simp: emit_def is_atmo_def)
  qed
qed

theorem Stop_repeats_or_closes_witness:
  "\<not> fst (Stop miss ntuple_ready)
   \<and> Stops [miss, hit, later_hit] ntuple_ready = ([False, False, False], ntuple_ready)
   \<and> fst (Stop hit mono_sampled)
   \<and> fSpillEvents mono_sampled = 1
   \<and> (snd (Stop hit mono_sampled))\<lparr>fTotalExposure := 0\<rparr> =
        mono_sampled\<lparr>fTotalExposure := 0, fSpillEvents := 0, fSpillExposure := 0,
                     fHistEventsPerSpill := 0, trace := trace mono_sampled\<rparr>
   \<and> fTotalExposure (snd (Stop hit mono_sampled)) = 0
   \<and> fst (Stop two_thrown (snd (Sample hit fluka_ready)))
   \<and> fAtmoRt (snd (Sample hit fluka_ready)) = 20
   \<and> fTotalExposure (snd (Stop two_thrown (snd (Sample hit fluka_ready)))) = 50 / pi"
proof -
  have f: "\<not> fst (Stop miss ntuple_ready)"
    by (simp add: example_defs spill_defs)
  have t: "fst (Stop hit mono_sampled)"
    by (simp add: example_defs spill_defs emit_def Let_def)
  have m: "\<not> is_atmo mono_sampled" "fFluxType mono_sampled = ''mono''"
    "fTotalExposure mono_sampled = 0" "fSpillExposure mono_sampled = 0"
    "fSpillEvents mono_sampled = 1"
    "real (Poisson hit (fXSecMassPOT mono_sampled * fTotalHistFlux mono_sampled)) = 0"
    by (simp_all add: example_defs spill_defs emit_def Let_def)
  have a: "fst (Stop two_thrown (snd (Sample hit fluka_ready)))"
    "is_atmo (snd (Sample hit fluka_ready))"
    "fAtmoRt (snd (Sample hit fluka_ready)) = 20"
    by (simp_all add: example_defs spill_defs emit_def Let_def)
  show ?thesis
    using f t m a
      Stop_repeats_or_closes [of miss ntuple_ready "[hit, later_hit]"]
      Stop_repeats_or_closes [of hit mono_sampled "[]"]
      Stop_repeats_or_closes [of two_thrown "snd (Sample hit fluka_ready)" "[]"]
    by (simp add: example_defs)
qed

text \<open>
  C2 as stated fails when \<^verbatim>\<open>Stop\<close> returns true: the call resets the spill counters.
  After the first event of a \<^verbatim>\<open>mono\<close> run the spill holds one event; \<^verbatim>\<open>Stop\<close> returns
  true and leaves none; the next \<^verbatim>\<open>Stop\<close> returns false.
\<close>

theorem Stop_closing_counterexample:
  "startup plain_site hall no_events mono_pset = Inr mono_ready
   \<and> mono_sampled = snd (Sample hit mono_ready)
   \<and> fSpillEvents mono_sampled = 1
   \<and> fst (Stop hit mono_sampled) = True
   \<and> fSpillEvents (snd (Stop hit mono_sampled)) = 0
   \<and> fst (Stop hit (snd (Stop hit mono_sampled))) = False"
  using startup_mono by (simp add: example_defs spill_defs emit_def Let_def)

subsection \<open>The total exposure\<close>















end
